theory Spec2Isabelle
  imports Main "HOL-Library.Log_Nat" "HOL-Library.Sublist"
begin

section \<open>Go values used by the sheets client\<close>

subsection \<open>Strings\<close>

text \<open>
  A Go string is a sequence of bytes; \<^typ>\<open>string\<close> is a list of 8-bit characters.
  \<open>strings.TrimSpace\<close> removes the leading and the trailing runes that
  \<open>unicode.IsSpace\<close> accepts. In UTF-8 these are the byte sequences below
  (tab, LF, VT, FF, CR, space, U+0085, U+00A0, U+1680, U+2000..U+200A, U+2028, U+2029,
  U+202F, U+205F, U+3000).
\<close>

definition White_Space :: "string list" where
  "White_Space =
    [[CHR 0x09], [CHR 0x0A], [CHR 0x0B], [CHR 0x0C], [CHR 0x0D], [CHR 0x20],
     [CHR 0xC2, CHR 0x85], [CHR 0xC2, CHR 0xA0],
     [CHR 0xE1, CHR 0x9A, CHR 0x80],
     [CHR 0xE2, CHR 0x80, CHR 0x80], [CHR 0xE2, CHR 0x80, CHR 0x81],
     [CHR 0xE2, CHR 0x80, CHR 0x82], [CHR 0xE2, CHR 0x80, CHR 0x83],
     [CHR 0xE2, CHR 0x80, CHR 0x84], [CHR 0xE2, CHR 0x80, CHR 0x85],
     [CHR 0xE2, CHR 0x80, CHR 0x86], [CHR 0xE2, CHR 0x80, CHR 0x87],
     [CHR 0xE2, CHR 0x80, CHR 0x88], [CHR 0xE2, CHR 0x80, CHR 0x89],
     [CHR 0xE2, CHR 0x80, CHR 0x8A], [CHR 0xE2, CHR 0x80, CHR 0xA8],
     [CHR 0xE2, CHR 0x80, CHR 0xA9], [CHR 0xE2, CHR 0x80, CHR 0xAF],
     [CHR 0xE2, CHR 0x81, CHR 0x9F], [CHR 0xE3, CHR 0x80, CHR 0x80]]"

definition leading_space :: "string \<Rightarrow> string option" where
  "leading_space s = find (\<lambda>w. prefix w s) White_Space"

definition trailing_space :: "string \<Rightarrow> string option" where
  "trailing_space s = find (\<lambda>w. suffix w s) White_Space"

lemma White_Space_nonempty: "w \<in> set White_Space \<Longrightarrow> w \<noteq> []"
  by (auto simp: White_Space_def)

lemma leading_space_Some:
  "leading_space s = Some w \<Longrightarrow> w \<in> set White_Space \<and> prefix w s"
  by (auto simp: leading_space_def find_Some_iff)

lemma trailing_space_Some:
  "trailing_space s = Some w \<Longrightarrow> w \<in> set White_Space \<and> suffix w s"
  by (auto simp: trailing_space_def find_Some_iff)

lemma leading_space_shorter:
  "leading_space s = Some w \<Longrightarrow> length (drop (length w) s) < length s"
  using White_Space_nonempty [of w] by (auto dest!: leading_space_Some simp: prefix_def)

lemma trailing_space_shorter:
  "trailing_space s = Some w \<Longrightarrow> length (take (length s - length w) s) < length s"
  using White_Space_nonempty [of w] by (auto dest!: trailing_space_Some simp: suffix_def)

function TrimLeft :: "string \<Rightarrow> string" where
  "TrimLeft s =
     (case leading_space s of None \<Rightarrow> s | Some w \<Rightarrow> TrimLeft (drop (length w) s))"
  by pat_completeness auto
termination
  by (relation "measure length") (auto dest: leading_space_shorter)

function TrimRight :: "string \<Rightarrow> string" where
  "TrimRight s =
     (case trailing_space s of None \<Rightarrow> s
      | Some w \<Rightarrow> TrimRight (take (length s - length w) s))"
  by pat_completeness auto
termination
  by (relation "measure length") (auto dest: trailing_space_shorter)

declare TrimLeft.simps [simp del] TrimRight.simps [simp del]

definition TrimSpace :: "string \<Rightarrow> string" where
  "TrimSpace s = TrimRight (TrimLeft s)"

text \<open>
  \<open>strings.ToUpper\<close> and \<open>strings.ToLower\<close>: the ASCII letters are mapped, every
  other byte is kept. (For letters outside ASCII the Go library consults its Unicode tables,
  which are not part of this program; such letters are not case-mapped here.)
\<close>

definition upper_byte :: "char \<Rightarrow> char" where
  "upper_byte c = (let b = (of_char c :: nat)
     in if 97 \<le> b \<and> b \<le> 122 then char_of (b - 32) else c)"

definition lower_byte :: "char \<Rightarrow> char" where
  "lower_byte c = (let b = (of_char c :: nat)
     in if 65 \<le> b \<and> b \<le> 90 then char_of (b + 32) else c)"

definition ToUpper :: "string \<Rightarrow> string" where
  "ToUpper s = map upper_byte s"

definition ToLower :: "string \<Rightarrow> string" where
  "ToLower s = map lower_byte s"

definition HasPrefix :: "string \<Rightarrow> string \<Rightarrow> bool" where
  "HasPrefix s p = prefix p s"

text \<open>\<open>strings.ReplaceAll(s, old, "")\<close>: every non-overlapping occurrence of \<open>old\<close>
  is removed, scanning from the left; an empty \<open>old\<close> removes nothing.\<close>

function RemoveAll :: "string \<Rightarrow> string \<Rightarrow> string" where
  "RemoveAll [] old = []"
| "RemoveAll (c # cs) old =
     (if old \<noteq> [] \<and> prefix old (c # cs)
      then RemoveAll (drop (length old) (c # cs)) old
      else c # RemoveAll cs old)"
  by pat_completeness auto
termination
  by (relation "measure (\<lambda>(s, old). length s)") auto

text \<open>\<open>strconv.ParseInt(s, 10, 64)\<close>: an optional sign, then one or more decimal
  digits; the value must fit a signed 64-bit integer. \<open>None\<close> is the error result.\<close>

definition is_digit :: "char \<Rightarrow> bool" where
  "is_digit c = (48 \<le> (of_char c :: nat) \<and> (of_char c :: nat) \<le> 57)"

definition digits_value :: "string \<Rightarrow> nat" where
  "digits_value ds = foldl (\<lambda>n c. 10 * n + ((of_char c :: nat) - 48)) 0 ds"

definition ParseInt :: "string \<Rightarrow> int option" where
  "ParseInt s =
     (case s of
        [] \<Rightarrow> None
      | c # cs \<Rightarrow>
          let neg = (c = CHR ''-'');
              ds = (if c = CHR ''+'' \<or> c = CHR ''-'' then cs else s)
          in if ds = [] \<or> \<not> list_all is_digit ds then None
             else let n = int (digits_value ds)
                  in if neg then (if 2 ^ 63 < n then None else Some (- n))
                     else (if 2 ^ 63 - 1 < n then None else Some n))"

text \<open>\<open>fmt.Sprintf("%d", n)\<close>.\<close>

fun FormatNat :: "nat \<Rightarrow> string" where
  "FormatNat n =
     (if n < 10 then [char_of (48 + n)]
      else FormatNat (n div 10) @ [char_of (48 + n mod 10)])"

declare FormatNat.simps [simp del]

definition FormatInt :: "int \<Rightarrow> string" where
  "FormatInt i = (if i < 0 then CHR ''-'' # FormatNat (nat (- i)) else FormatNat (nat i))"

subsection \<open>float64\<close>

text \<open>
  IEEE 754 binary64 as Go uses it: the finite values are the rationals \<open>m * 2^e\<close> with
  \<open>\<bar>m\<bar> < 2^53\<close> and \<open>-1074 \<le> e \<le> 971\<close>; every arithmetic result is rounded to the
  nearest such value, ties to the even mantissa, and overflows to an infinity when the
  rounded magnitude reaches \<open>2^1024\<close>. In \<open>round64\<close>, \<open>e\<close> is the exponent of the
  binade of \<open>q\<close> (at least that of the subnormals), \<open>u\<close> the distance between
  neighbouring values there and \<open>n\<close> the rounded mantissa. Negative zero is identified
  with zero (the two compare equal in Go).
\<close>

datatype float64 = Finite rat | PosInf | NegInf | NaN

definition pow2 :: "int \<Rightarrow> rat" where
  "pow2 e = (if 0 \<le> e then 2 ^ nat e else 1 / 2 ^ nat (- e))"

definition ilog2 :: "rat \<Rightarrow> int" where
  "ilog2 q = (let (a, b) = quotient_of \<bar>q\<bar>; d = bitlen a - bitlen b
              in if pow2 d \<le> \<bar>q\<bar> then d else d - 1)"

definition round_half_even :: "rat \<Rightarrow> int" where
  "round_half_even r = (let f = \<lfloor>r\<rfloor>; d = r - of_int f
     in if d < 1 / 2 then f else if 1 / 2 < d then f + 1
        else if even f then f else f + 1)"

definition round64 :: "rat \<Rightarrow> float64" where
  "round64 q = (if q = 0 then Finite 0 else
     let e = max (ilog2 q) (- 1022);
         u = pow2 (e - 52);
         n = round_half_even (q / u)
     in if 1024 \<le> e \<or> (e = 1023 \<and> 2 ^ 53 \<le> \<bar>n\<bar>)
        then (if 0 < q then PosInf else NegInf)
        else Finite (of_int n * u))"

text \<open>A rational is a float64 value when rounding leaves it as it is.\<close>

definition is_float64 :: "rat \<Rightarrow> bool" where
  "is_float64 q = (round64 q = Finite q)"

definition fneg :: "float64 \<Rightarrow> float64" where
  "fneg x = (case x of Finite q \<Rightarrow> Finite (- q) | PosInf \<Rightarrow> NegInf
             | NegInf \<Rightarrow> PosInf | NaN \<Rightarrow> NaN)"

fun fadd :: "float64 \<Rightarrow> float64 \<Rightarrow> float64" where
  "fadd NaN y = NaN"
| "fadd x NaN = NaN"
| "fadd (Finite a) (Finite b) = round64 (a + b)"
| "fadd PosInf NegInf = NaN"
| "fadd NegInf PosInf = NaN"
| "fadd PosInf y = PosInf"
| "fadd NegInf y = NegInf"
| "fadd (Finite a) y = y"

definition fsub :: "float64 \<Rightarrow> float64 \<Rightarrow> float64" where
  "fsub x y = fadd x (fneg y)"

definition fsign :: "float64 \<Rightarrow> int" where
  "fsign x = (case x of Finite q \<Rightarrow> sgn \<lfloor>sgn q\<rfloor> | PosInf \<Rightarrow> 1 | NegInf \<Rightarrow> - 1 | NaN \<Rightarrow> 0)"

fun fmul :: "float64 \<Rightarrow> float64 \<Rightarrow> float64" where
  "fmul NaN y = NaN"
| "fmul x NaN = NaN"
| "fmul (Finite a) (Finite b) = round64 (a * b)"
| "fmul x y =
     (let s = fsign x * fsign y
      in if s = 0 then NaN else if 0 < s then PosInf else NegInf)"

text \<open>Go's comparisons: every comparison with NaN is false, except \<open>!=\<close>.\<close>

fun f_le :: "float64 \<Rightarrow> float64 \<Rightarrow> bool" where
  "f_le NaN y = False"
| "f_le x NaN = False"
| "f_le NegInf y = True"
| "f_le x PosInf = True"
| "f_le (Finite a) (Finite b) = (a \<le> b)"
| "f_le x y = False"

definition f_ne :: "float64 \<Rightarrow> float64 \<Rightarrow> bool" where
  "f_ne x y = (x = NaN \<or> y = NaN \<or> x \<noteq> y)"

definition float64_of_int :: "int \<Rightarrow> float64" where
  "float64_of_int i = round64 (of_int i)"

text \<open>
  The parts of the Go library and runtime that the program calls on float64 values and that
  are not program code are parameters of the model: \<open>strconv.ParseFloat(s, 64)\<close>
  (\<open>None\<close> when it returns an error), the \<open>%v\<close> rendering of a float
  (\<open>strconv.FormatFloat(f, 'g', -1, bitSize)\<close>), and the implementation-dependent
  result of converting to int64 a float64 that int64 cannot represent.
\<close>

record golib =
  ParseFloat :: "string \<Rightarrow> float64 option"
  FormatFloat :: "nat \<Rightarrow> float64 \<Rightarrow> string"
  ConvertOverflow :: "float64 \<Rightarrow> int"

definition int64_of_float64 :: "golib \<Rightarrow> float64 \<Rightarrow> int" where
  "int64_of_float64 L v =
     (case v of
        Finite q \<Rightarrow>
          let t = (if 0 \<le> q then \<lfloor>q\<rfloor> else \<lceil>q\<rceil>)
          in if - (2 ^ 63) \<le> t \<and> t < 2 ^ 63 then t else ConvertOverflow L v
      | _ \<Rightarrow> ConvertOverflow L v)"

subsection \<open>Cell values\<close>

text \<open>A cell of a value range is an \<open>interface{}\<close>; these are the dynamic types the
  program's type switches distinguish, \<open>CBool\<close> standing for the default branch.\<close>

datatype cell =
    CNil
  | CString string
  | CFloat64 float64
  | CFloat32 float64
  | CInt int
  | CInt64 int
  | CBool bool

definition Sprint :: "golib \<Rightarrow> cell \<Rightarrow> string" where
  "Sprint L val =
     (case val of
        CNil \<Rightarrow> ''<nil>''
      | CString s \<Rightarrow> s
      | CFloat64 v \<Rightarrow> FormatFloat L 64 v
      | CFloat32 v \<Rightarrow> FormatFloat L 32 v
      | CInt v \<Rightarrow> FormatInt v
      | CInt64 v \<Rightarrow> FormatInt v
      | CBool b \<Rightarrow> (if b then ''true'' else ''false''))"

definition getStringValue :: "golib \<Rightarrow> cell \<Rightarrow> string" where
  "getStringValue L val = (if val = CNil then [] else TrimSpace (Sprint L val))"

definition getIntValue :: "golib \<Rightarrow> cell \<Rightarrow> int" where
  "getIntValue L val =
     (case val of
        CNil \<Rightarrow> 0
      | CInt v \<Rightarrow> v
      | CInt64 v \<Rightarrow> v
      | CFloat64 v \<Rightarrow> int64_of_float64 L v
      | CString v \<Rightarrow>
          (if v = [] then 0
           else case ParseInt (TrimSpace v) of None \<Rightarrow> 0 | Some result \<Rightarrow> result)
      | _ \<Rightarrow>
          (let str = getStringValue L val
           in if str = [] then 0
              else case ParseInt str of None \<Rightarrow> 0 | Some result \<Rightarrow> result))"

definition getFloatValue :: "golib \<Rightarrow> cell \<Rightarrow> float64" where
  "getFloatValue L val =
     (case val of
        CNil \<Rightarrow> Finite 0
      | CFloat64 v \<Rightarrow> v
      | CFloat32 v \<Rightarrow> v
      | CInt v \<Rightarrow> float64_of_int v
      | CInt64 v \<Rightarrow> float64_of_int v
      | CString v \<Rightarrow>
          (if v = [] then Finite 0
           else case ParseFloat L (TrimSpace v) of None \<Rightarrow> Finite 0 | Some result \<Rightarrow> result)
      | _ \<Rightarrow>
          (let str = getStringValue L val
           in if str = [] then Finite 0
              else case ParseFloat L str of None \<Rightarrow> Finite 0 | Some result \<Rightarrow> result))"

section \<open>The spreadsheet service and the client\<close>

text \<open>
  The four sheets are Refovody (referrers, columns A..G), Priglashennye (invited bindings,
  A..B), Referaly (the ledger, A..F) and Vyvody (upstream withdrawals, A..D). A request is
  one call of the Sheets API, or one read of the operating system's random source; every
  write uses the input option USER\_ENTERED. The environment is any function from the
  calls made so far (with their replies) and the present request to a reply: nothing is
  assumed about what the store returns. The client records each call and its reply.
\<close>

datatype sheet = Refovody | Priglashennye | Referaly | Vyvody

datatype render = FORMATTED_VALUE | UNFORMATTED_VALUE

datatype request =
    Get sheet string render
  | Update sheet string "cell list list"
  | BatchUpdate "(sheet \<times> string \<times> cell list list) list"
  | RandInt nat

datatype response = Failed | Values "cell list list" | Updated | Number nat

type_synonym calls = "(request \<times> response) list"

type_synonym service = "calls \<Rightarrow> request \<Rightarrow> response"

datatype error =
    ReadError sheet
  | WriteError sheet
  | NotFound
  | RandomError
  | CodeExhausted nat
  | Wrapped string error

record Referrer =
  ID :: int
  Username :: string
  Code :: string
  Wallet :: string
  RefCount :: int
  PendingPayout :: float64
  PaidOut :: float64

record Invited =
  UserID :: int
  RefCode :: string

record Referral =
  RefID :: int
  RefCode :: string
  Profit :: float64
  DealID :: string
  Bonus :: float64
  Date :: string

record Withdrawal =
  DealID :: string
  UserID :: int
  Profit :: float64

text \<open>The client: the four cache maps (\<open>map[string]bool\<close> reads \<open>false\<close> at a
  missing key, so it is a total function) and the calls made through \<open>service\<close>.
  The cached \<open>*Referrer\<close> values are never written through after they are stored
  (every getter returns a copy), so the maps hold values.\<close>

record SheetsClient =
  referrersByID :: "int \<rightharpoonup> Referrer"
  referrersByCode :: "string \<rightharpoonup> Referrer"
  invitedByUserID :: "int \<rightharpoonup> Invited"
  existingDealIDs :: "string \<Rightarrow> bool"
  service :: calls

definition Do :: "service \<Rightarrow> SheetsClient \<Rightarrow> request \<Rightarrow> response \<times> SheetsClient" where
  "Do E sc rq = (let rs = E (service sc) rq in (rs, sc\<lparr>service := service sc @ [(rq, rs)]\<rparr>))"

text \<open>\<open>Spreadsheets.Values.Get(...).Do()\<close>: the rows, or an error.\<close>

definition ValuesGet ::
  "service \<Rightarrow> SheetsClient \<Rightarrow> sheet \<Rightarrow> string \<Rightarrow> render \<Rightarrow> (unit + cell list list) \<times> SheetsClient" where
  "ValuesGet E sc sh rng opt =
     (case Do E sc (Get sh rng opt) of
        (Values rows, sc') \<Rightarrow> (Inr rows, sc')
      | (_, sc') \<Rightarrow> (Inl (), sc'))"

definition ValuesUpdate ::
  "service \<Rightarrow> SheetsClient \<Rightarrow> sheet \<Rightarrow> string \<Rightarrow> cell list list \<Rightarrow> bool \<times> SheetsClient" where
  "ValuesUpdate E sc sh rng vals =
     (case Do E sc (Update sh rng vals) of
        (Updated, sc') \<Rightarrow> (True, sc')
      | (_, sc') \<Rightarrow> (False, sc'))"

definition ValuesBatchUpdate ::
  "service \<Rightarrow> SheetsClient \<Rightarrow> (sheet \<times> string \<times> cell list list) list \<Rightarrow> bool \<times> SheetsClient" where
  "ValuesBatchUpdate E sc data =
     (case Do E sc (BatchUpdate data) of
        (Updated, sc') \<Rightarrow> (True, sc')
      | (_, sc') \<Rightarrow> (False, sc'))"

section \<open>UpdatePendingPayouts\<close>

text \<open>The loop over the rows of Refovody!A2:G, \<open>i\<close> the index of the first row of
  \<open>rows\<close>; the result is \<open>updates\<close> in the order appended.\<close>

fun pendingUpdates :: "golib \<Rightarrow> nat \<Rightarrow> cell list list \<Rightarrow> (sheet \<times> string \<times> cell list list) list" where
  "pendingUpdates L i [] = []"
| "pendingUpdates L i (row # rows) =
     (if length row < 1 then pendingUpdates L (Suc i) rows
      else let idStr = getStringValue L (row ! 0)
      in if idStr = [] then pendingUpdates L (Suc i) rows
      else let currentPending = (if 5 < length row then getFloatValue L (row ! 5) else Finite 0);
               paidOut = (if 6 < length row then getFloatValue L (row ! 6) else Finite 0);
               newPending = fsub currentPending paidOut
      in if f_ne newPending currentPending
         then (let rowIndex = int i + 2;
                   updateRange = ''F'' @ FormatInt rowIndex
               in (Refovody, updateRange, [[CFloat64 newPending]]) # pendingUpdates L (Suc i) rows)
         else pendingUpdates L (Suc i) rows)"

definition UpdatePendingPayouts :: "service \<Rightarrow> golib \<Rightarrow> SheetsClient \<Rightarrow> error option \<times> SheetsClient" where
  "UpdatePendingPayouts E L sc =
     (case ValuesGet E sc Refovody ''A2:G'' UNFORMATTED_VALUE of
        (Inl _, sc1) \<Rightarrow> (Some (ReadError Refovody), sc1)
      | (Inr rows, sc1) \<Rightarrow>
          if length rows = 0 then (None, sc1)
          else let updates = pendingUpdates L 0 rows
          in if length updates = 0 then (None, sc1)
          else (case ValuesBatchUpdate E sc1 updates of
                  (False, sc2) \<Rightarrow> (Some (WriteError Refovody), sc2)
                | (True, sc2) \<Rightarrow> (None, sc2)))"

text \<open>What the loop reads from one row: whether column A holds an id, and the values of
  columns F (pending) and G (paid out), absent cells counting as 0.\<close>

definition hasID :: "golib \<Rightarrow> cell list \<Rightarrow> bool" where
  "hasID L row = (row \<noteq> [] \<and> getStringValue L (row ! 0) \<noteq> [])"

definition pendingOf :: "golib \<Rightarrow> cell list \<Rightarrow> float64" where
  "pendingOf L row = (if 5 < length row then getFloatValue L (row ! 5) else Finite 0)"

definition paidOutOf :: "golib \<Rightarrow> cell list \<Rightarrow> float64" where
  "paidOutOf L row = (if 6 < length row then getFloatValue L (row ! 6) else Finite 0)"

section \<open>The index cache\<close>

text \<open>\<open>parseReferrerRow\<close>; \<open>None\<close> is the \<open>nil\<close> result.\<close>

definition parseReferrerRow :: "golib \<Rightarrow> cell list \<Rightarrow> Referrer option" where
  "parseReferrerRow L row =
     (if length row < 1 then None
      else case (case row ! 0 of
                   CString v \<Rightarrow> ParseInt v
                 | CInt64 v \<Rightarrow> Some v
                 | CInt v \<Rightarrow> Some v
                 | CFloat64 v \<Rightarrow> Some (int64_of_float64 L v)
                 | _ \<Rightarrow> (let idStr = getStringValue L (row ! 0)
                         in if idStr = [] then None else ParseInt idStr)) of
             None \<Rightarrow> None
           | Some parsed \<Rightarrow>
               Some \<lparr>ID = parsed,
                 Username = (if 1 < length row then getStringValue L (row ! 1) else []),
                 Code = (if 2 < length row then getStringValue L (row ! 2) else []),
                 Wallet = (if 3 < length row then getStringValue L (row ! 3) else []),
                 RefCount = (if 4 < length row then getIntValue L (row ! 4) else 0),
                 PendingPayout = (if 5 < length row then getFloatValue L (row ! 5) else Finite 0),
                 PaidOut = (if 6 < length row then getFloatValue L (row ! 6) else Finite 0)\<rparr>)"

text \<open>The statements that store a referrer in the two maps; \<open>loadReferrersCache\<close> and
  \<open>UpdateReferrer\<close> both end with them.\<close>

definition cacheReferrer :: "Referrer \<Rightarrow> SheetsClient \<Rightarrow> SheetsClient" where
  "cacheReferrer ref sc =
     (let sc1 = sc\<lparr>referrersByID := (referrersByID sc)(ID ref \<mapsto> ref)\<rparr>
      in if Code ref \<noteq> []
         then (let normalizedCode = ToUpper (TrimSpace (Code ref))
               in sc1\<lparr>referrersByCode := (referrersByCode sc1)(normalizedCode \<mapsto> ref)\<rparr>)
         else sc1)"

text \<open>The row loop of \<open>loadReferrersCache\<close>.\<close>

fun loadReferrerRows :: "golib \<Rightarrow> cell list list \<Rightarrow> SheetsClient \<Rightarrow> SheetsClient" where
  "loadReferrerRows L [] sc = sc"
| "loadReferrerRows L (row # rows) sc =
     (if length row < 1 then loadReferrerRows L rows sc
      else case parseReferrerRow L row of
             None \<Rightarrow> loadReferrerRows L rows sc
           | Some ref \<Rightarrow> loadReferrerRows L rows (cacheReferrer ref sc))"

definition loadReferrersCache :: "service \<Rightarrow> golib \<Rightarrow> SheetsClient \<Rightarrow> error option \<times> SheetsClient" where
  "loadReferrersCache E L sc =
     (case ValuesGet E sc Refovody ''A2:G'' UNFORMATTED_VALUE of
        (Inl _, sc1) \<Rightarrow> (Some (ReadError Refovody), sc1)
      | (Inr rows, sc1) \<Rightarrow>
          (None, loadReferrerRows L rows
                   (sc1\<lparr>referrersByID := Map.empty, referrersByCode := Map.empty\<rparr>)))"

text \<open>The type switch on the user id cell of an invited row (\<open>None\<close>: the row is
  skipped), and the row loop of \<open>loadInvitedCache\<close>.\<close>

definition invitedUserID :: "golib \<Rightarrow> cell \<Rightarrow> int option" where
  "invitedUserID L val =
     (case val of
        CString v \<Rightarrow> ParseInt v
      | CInt64 v \<Rightarrow> Some v
      | CInt v \<Rightarrow> Some v
      | CFloat64 v \<Rightarrow> Some (int64_of_float64 L v)
      | _ \<Rightarrow> None)"

fun loadInvitedRows :: "golib \<Rightarrow> cell list list \<Rightarrow> SheetsClient \<Rightarrow> SheetsClient" where
  "loadInvitedRows L [] sc = sc"
| "loadInvitedRows L (row # rows) sc =
     (if length row < 2 then loadInvitedRows L rows sc
      else case invitedUserID L (row ! 0) of
             None \<Rightarrow> loadInvitedRows L rows sc
           | Some userID \<Rightarrow>
               loadInvitedRows L rows
                 (sc\<lparr>invitedByUserID := (invitedByUserID sc)
                    (userID \<mapsto> \<lparr>Invited.UserID = userID,
                                 Invited.RefCode = getStringValue L (row ! 1)\<rparr>)\<rparr>))"

definition loadInvitedCache :: "service \<Rightarrow> golib \<Rightarrow> SheetsClient \<Rightarrow> error option \<times> SheetsClient" where
  "loadInvitedCache E L sc =
     (case ValuesGet E sc Priglashennye ''A2:B'' FORMATTED_VALUE of
        (Inl _, sc1) \<Rightarrow> (Some (ReadError Priglashennye), sc1)
      | (Inr rows, sc1) \<Rightarrow>
          (None, loadInvitedRows L rows (sc1\<lparr>invitedByUserID := Map.empty\<rparr>)))"

fun loadDealIDRows :: "golib \<Rightarrow> cell list list \<Rightarrow> SheetsClient \<Rightarrow> SheetsClient" where
  "loadDealIDRows L [] sc = sc"
| "loadDealIDRows L (row # rows) sc =
     (if 0 < length row
      then (let dealID = getStringValue L (row ! 0)
            in if dealID \<noteq> []
               then loadDealIDRows L rows
                      (sc\<lparr>existingDealIDs := (existingDealIDs sc)(dealID := True)\<rparr>)
               else loadDealIDRows L rows sc)
      else loadDealIDRows L rows sc)"

definition loadDealIDsCache :: "service \<Rightarrow> golib \<Rightarrow> SheetsClient \<Rightarrow> error option \<times> SheetsClient" where
  "loadDealIDsCache E L sc =
     (case ValuesGet E sc Referaly ''D2:D'' FORMATTED_VALUE of
        (Inl _, sc1) \<Rightarrow> (Some (ReadError Referaly), sc1)
      | (Inr rows, sc1) \<Rightarrow>
          (None, loadDealIDRows L rows (sc1\<lparr>existingDealIDs := (\<lambda>d. False)\<rparr>)))"

text \<open>\<open>LoadCache\<close>. (The time stamp \<open>lastCacheUpdate\<close>, set only on success and read
  nowhere, is left out.)\<close>

definition LoadCache :: "service \<Rightarrow> golib \<Rightarrow> SheetsClient \<Rightarrow> error option \<times> SheetsClient" where
  "LoadCache E L sc =
     (case loadReferrersCache E L sc of
        (Some err, sc1) \<Rightarrow> (Some (Wrapped ''LoadCache: referrers'' err), sc1)
      | (None, sc1) \<Rightarrow>
     (case loadInvitedCache E L sc1 of
        (Some err, sc2) \<Rightarrow> (Some (Wrapped ''LoadCache: invited'' err), sc2)
      | (None, sc2) \<Rightarrow>
     (case loadDealIDsCache E L sc2 of
        (Some err, sc3) \<Rightarrow> (Some (Wrapped ''LoadCache: deal ids'' err), sc3)
      | (None, sc3) \<Rightarrow> (None, sc3))))"

text \<open>The getters return a copy of the cached value, or \<open>nil\<close>; their error is always
  \<open>nil\<close>.\<close>

definition GetReferrerByID :: "SheetsClient \<Rightarrow> int \<Rightarrow> Referrer option" where
  "GetReferrerByID sc userID = referrersByID sc userID"

definition GetReferrerByCode :: "SheetsClient \<Rightarrow> string \<Rightarrow> Referrer option" where
  "GetReferrerByCode sc code =
     (let normalizedCode = ToUpper (TrimSpace code) in referrersByCode sc normalizedCode)"

definition GetInvitedByUserID :: "SheetsClient \<Rightarrow> int \<Rightarrow> Invited option" where
  "GetInvitedByUserID sc userID = invitedByUserID sc userID"

definition GetExistingDealIDs :: "SheetsClient \<Rightarrow> string \<Rightarrow> bool" where
  "GetExistingDealIDs sc = existingDealIDs sc"

section \<open>Writes\<close>

fun firstEmpty :: "golib \<Rightarrow> nat \<Rightarrow> cell list list \<Rightarrow> int option" where
  "firstEmpty L i [] = None"
| "firstEmpty L i (row # rows) =
     (if length row = 0 \<or> getStringValue L (row ! 0) = [] then Some (int i + 2)
      else firstEmpty L (Suc i) rows)"

definition findFirstEmptyRow ::
  "service \<Rightarrow> golib \<Rightarrow> SheetsClient \<Rightarrow> sheet \<Rightarrow> (error + int) \<times> SheetsClient" where
  "findFirstEmptyRow E L sc sheetName =
     (case ValuesGet E sc sheetName ''A2:A'' FORMATTED_VALUE of
        (Inl _, sc1) \<Rightarrow> (Inl (ReadError sheetName), sc1)
      | (Inr rows, sc1) \<Rightarrow>
          if length rows = 0 then (Inr 2, sc1)
          else case firstEmpty L 0 rows of
                 Some r \<Rightarrow> (Inr r, sc1)
               | None \<Rightarrow> (Inr (int (length rows) + 2), sc1))"

definition referrerValues :: "Referrer \<Rightarrow> cell list list" where
  "referrerValues ref =
     [[CString (FormatInt (ID ref)), CString (Username ref), CString (Code ref),
       CString (if Wallet ref \<noteq> [] then Wallet ref else []), CInt (RefCount ref),
       CFloat64 (PendingPayout ref), CFloat64 (PaidOut ref)]]"

definition rowRange :: "string \<Rightarrow> string \<Rightarrow> int \<Rightarrow> string" where
  "rowRange a b rowIndex = a @ FormatInt rowIndex @ '':'' @ b @ FormatInt rowIndex"

text \<open>The search loop of \<open>UpdateReferrer\<close>: the sheet row of the first row whose
  first cell is a string that parses to the referrer's id.\<close>

fun findReferrerRow :: "int \<Rightarrow> nat \<Rightarrow> cell list list \<Rightarrow> int option" where
  "findReferrerRow rid i [] = None"
| "findReferrerRow rid i (row # rows) =
     (if length row < 1 then findReferrerRow rid (Suc i) rows
      else case row ! 0 of
             CString idStr \<Rightarrow>
               (case ParseInt idStr of
                  None \<Rightarrow> findReferrerRow rid (Suc i) rows
                | Some parsed \<Rightarrow> if parsed = rid then Some (int i + 2)
                             else findReferrerRow rid (Suc i) rows)
           | _ \<Rightarrow> findReferrerRow rid (Suc i) rows)"

definition UpdateReferrer :: "service \<Rightarrow> SheetsClient \<Rightarrow> Referrer \<Rightarrow> error option \<times> SheetsClient" where
  "UpdateReferrer E sc ref =
     (case ValuesGet E sc Refovody ''A2:G'' FORMATTED_VALUE of
        (Inl _, sc1) \<Rightarrow> (Some (ReadError Refovody), sc1)
      | (Inr rows, sc1) \<Rightarrow>
          (case findReferrerRow (ID ref) 0 rows of
             None \<Rightarrow> (Some NotFound, sc1)
           | Some rowIndex \<Rightarrow>
               (case ValuesUpdate E sc1 Refovody (rowRange ''A'' ''G'' rowIndex) (referrerValues ref) of
                  (False, sc2) \<Rightarrow> (Some (WriteError Refovody), sc2)
                | (True, sc2) \<Rightarrow> (None, cacheReferrer ref sc2))))"

text \<open>\<open>rand.Int(rand.Reader, max)\<close>: a number below \<open>max\<close>, or an error.\<close>

definition rand_Int :: "service \<Rightarrow> SheetsClient \<Rightarrow> nat \<Rightarrow> (unit + nat) \<times> SheetsClient" where
  "rand_Int E sc m =
     (case Do E sc (RandInt m) of
        (Number n, sc') \<Rightarrow> (Inr (n mod m), sc')
      | (_, sc') \<Rightarrow> (Inl (), sc'))"

definition charset :: string where
  "charset = ''ABCDEFGHIJKLMNOPQRSTUVWXYZ0123456789''"

text \<open>The inner loop of \<open>generateUniqueCode\<close>, for the \<open>k\<close> positions still to fill.\<close>

fun randomCode :: "service \<Rightarrow> SheetsClient \<Rightarrow> nat \<Rightarrow> (error + string) \<times> SheetsClient" where
  "randomCode E sc 0 = (Inr [], sc)"
| "randomCode E sc (Suc k) =
     (case rand_Int E sc (length charset) of
        (Inl _, sc1) \<Rightarrow> (Inl RandomError, sc1)
      | (Inr n, sc1) \<Rightarrow>
          (case randomCode E sc1 k of
             (Inl e, sc2) \<Rightarrow> (Inl e, sc2)
           | (Inr cs, sc2) \<Rightarrow> (Inr (charset ! n # cs), sc2)))"

definition codeExists :: "service \<Rightarrow> golib \<Rightarrow> SheetsClient \<Rightarrow> string \<Rightarrow> (error + bool) \<times> SheetsClient" where
  "codeExists E L sc code =
     (case ValuesGet E sc Refovody ''C2:C'' FORMATTED_VALUE of
        (Inl _, sc1) \<Rightarrow> (Inl (ReadError Refovody), sc1)
      | (Inr rows, sc1) \<Rightarrow>
          (Inr (list_ex (\<lambda>row. 0 < length row \<and> getStringValue L (row ! 0) = code) rows), sc1))"

text \<open>The attempt loop of \<open>generateUniqueCode\<close>, for the \<open>k\<close> attempts left of
  \<open>maxAttempts\<close> (the pause between attempts is not modelled).\<close>

definition maxAttempts :: nat where
  "maxAttempts = 100"

definition codeLength :: nat where
  "codeLength = 6"

fun generateLoop :: "service \<Rightarrow> golib \<Rightarrow> SheetsClient \<Rightarrow> nat \<Rightarrow> (error + string) \<times> SheetsClient" where
  "generateLoop E L sc 0 = (Inl (CodeExhausted maxAttempts), sc)"
| "generateLoop E L sc (Suc k) =
     (case randomCode E sc codeLength of
        (Inl e, sc1) \<Rightarrow> (Inl e, sc1)
      | (Inr codeStr, sc1) \<Rightarrow>
          (case codeExists E L sc1 codeStr of
             (Inl e, sc2) \<Rightarrow> (Inl e, sc2)
           | (Inr exists, sc2) \<Rightarrow>
               if \<not> exists then (Inr codeStr, sc2) else generateLoop E L sc2 k))"

definition generateUniqueCode :: "service \<Rightarrow> golib \<Rightarrow> SheetsClient \<Rightarrow> (error + string) \<times> SheetsClient" where
  "generateUniqueCode E L sc = generateLoop E L sc maxAttempts"

definition CreateReferrer ::
  "service \<Rightarrow> golib \<Rightarrow> SheetsClient \<Rightarrow> int \<Rightarrow> string \<Rightarrow> (error + Referrer) \<times> SheetsClient" where
  "CreateReferrer E L sc userID username =
     (case generateUniqueCode E L sc of
        (Inl err, sc1) \<Rightarrow> (Inl (Wrapped ''CreateReferrer: code'' err), sc1)
      | (Inr code, sc1) \<Rightarrow>
          let ref = \<lparr>ID = userID, Username = username, Code = code, Wallet = [],
                     RefCount = 0, PendingPayout = Finite 0, PaidOut = Finite 0\<rparr>
          in (case findFirstEmptyRow E L sc1 Refovody of
                (Inl err, sc2) \<Rightarrow> (Inl (Wrapped ''CreateReferrer: empty row'' err), sc2)
              | (Inr rowIndex, sc2) \<Rightarrow>
                  (case ValuesUpdate E sc2 Refovody (rowRange ''A'' ''G'' rowIndex) (referrerValues ref) of
                     (False, sc3) \<Rightarrow> (Inl (WriteError Refovody), sc3)
                   | (True, sc3) \<Rightarrow> (Inr ref, sc3))))"

definition CreateInvited ::
  "service \<Rightarrow> golib \<Rightarrow> SheetsClient \<Rightarrow> int \<Rightarrow> string \<Rightarrow> error option \<times> SheetsClient" where
  "CreateInvited E L sc userID refCode =
     (case findFirstEmptyRow E L sc Priglashennye of
        (Inl err, sc1) \<Rightarrow> (Some (Wrapped ''CreateInvited: empty row'' err), sc1)
      | (Inr rowIndex, sc1) \<Rightarrow>
          (case ValuesUpdate E sc1 Priglashennye (rowRange ''A'' ''B'' rowIndex)
                  [[CString (FormatInt userID), CString refCode]] of
             (False, sc2) \<Rightarrow> (Some (WriteError Priglashennye), sc2)
           | (True, sc2) \<Rightarrow>
               (None, sc2\<lparr>invitedByUserID := (invitedByUserID sc2)
                        (userID \<mapsto> \<lparr>Invited.UserID = userID, Invited.RefCode = refCode\<rparr>)\<rparr>)))"

section \<open>The reconciliation pipeline\<close>

text \<open>The user id cell of a withdrawal row as text: non-breaking spaces (U+00A0) and
  spaces are removed, and the text is skipped when it is empty or starts with the Cyrillic
  word "bez" (the bytes D0 B1 D0 B5 D0 B7); \<open>None\<close> is the \<open>continue\<close>.\<close>

definition cleanUserID :: "string \<Rightarrow> int option" where
  "cleanUserID v =
     (let cleaned = RemoveAll v [CHR 0xC2, CHR 0xA0];
          cleaned = RemoveAll cleaned '' '';
          cleaned = TrimSpace cleaned
      in if cleaned = [] \<or>
            HasPrefix (ToLower cleaned) [CHR 0xD0, CHR 0xB1, CHR 0xD0, CHR 0xB5, CHR 0xD0, CHR 0xB7]
         then None
         else ParseInt cleaned)"

text \<open>One iteration of the row loop of \<open>GetNewWithdrawals\<close>: the withdrawal appended,
  or \<open>None\<close> when the row is skipped; \<open>existing\<close> is the copy of \<open>existingDealIDs\<close>
  taken before the loop.\<close>

definition withdrawalOfRow :: "golib \<Rightarrow> (string \<Rightarrow> bool) \<Rightarrow> cell list \<Rightarrow> Withdrawal option" where
  "withdrawalOfRow L existing row =
     (if length row < 2 then None
      else let dealID = getStringValue L (row ! 0)
      in if dealID = [] then None
      else if existing dealID then None
      else case (case row ! 1 of
                   CString v \<Rightarrow> cleanUserID v
                 | CInt64 v \<Rightarrow> Some v
                 | CInt v \<Rightarrow> Some v
                 | CFloat64 v \<Rightarrow> Some (int64_of_float64 L v)
                 | _ \<Rightarrow> cleanUserID (getStringValue L (row ! 1))) of
             None \<Rightarrow> None
           | Some userID \<Rightarrow>
               (case (if 4 \<le> length row then Some (getFloatValue L (row ! 3))
                      else if 3 \<le> length row then Some (getFloatValue L (row ! 2))
                      else None) of
                  None \<Rightarrow> None
                | Some profit \<Rightarrow>
                    if f_le profit (Finite 0) then None
                    else Some \<lparr>Withdrawal.DealID = dealID, Withdrawal.UserID = userID,
                               Withdrawal.Profit = profit\<rparr>))"

definition GetNewWithdrawals ::
  "service \<Rightarrow> golib \<Rightarrow> SheetsClient \<Rightarrow> (error + Withdrawal list) \<times> SheetsClient" where
  "GetNewWithdrawals E L sc =
     (let existing = GetExistingDealIDs sc
      in case ValuesGet E sc Vyvody ''A2:D'' UNFORMATTED_VALUE of
           (Inl _, sc1) \<Rightarrow> (Inl (ReadError Vyvody), sc1)
         | (Inr rows, sc1) \<Rightarrow> (Inr (List.map_filter (withdrawalOfRow L existing) rows), sc1))"

definition referralValues :: "Referral \<Rightarrow> cell list list" where
  "referralValues ref =
     [[CString (FormatInt (RefID ref)), CString (Referral.RefCode ref),
       CFloat64 (Referral.Profit ref), CString (Referral.DealID ref),
       CFloat64 (Bonus ref), CString (Date ref)]]"

definition CreateReferral ::
  "service \<Rightarrow> golib \<Rightarrow> SheetsClient \<Rightarrow> Referral \<Rightarrow> error option \<times> SheetsClient" where
  "CreateReferral E L sc ref =
     (case findFirstEmptyRow E L sc Referaly of
        (Inl err, sc1) \<Rightarrow> (Some (Wrapped ''CreateReferral: empty row'' err), sc1)
      | (Inr rowIndex, sc1) \<Rightarrow>
          (case ValuesUpdate E sc1 Referaly (rowRange ''A'' ''F'' rowIndex) (referralValues ref) of
             (False, sc2) \<Rightarrow> (Some (WriteError Referaly), sc2)
           | (True, sc2) \<Rightarrow>
               (None, sc2\<lparr>existingDealIDs := (existingDealIDs sc2)(Referral.DealID ref := True)\<rparr>)))"

text \<open>\<open>processWithdrawal\<close>. The bot holds the client and reads the clock: \<open>now\<close> gives
  the formatted time from the calls made so far. The constant \<open>0.1\<close> is the float64
  nearest to one tenth.\<close>

definition processWithdrawal ::
  "service \<Rightarrow> golib \<Rightarrow> (calls \<Rightarrow> string) \<Rightarrow> SheetsClient \<Rightarrow> Withdrawal \<Rightarrow> error option \<times> SheetsClient" where
  "processWithdrawal E L now sc withdrawal =
     (case GetInvitedByUserID sc (Withdrawal.UserID withdrawal) of
        None \<Rightarrow> (None, sc)
      | Some invited \<Rightarrow>
     (case GetReferrerByCode sc (Invited.RefCode invited) of
        None \<Rightarrow> (None, sc)
      | Some ref \<Rightarrow>
          let bonus = fmul (Withdrawal.Profit withdrawal) (round64 (1 / 10));
              referral = \<lparr>RefID = Withdrawal.UserID withdrawal,
                          Referral.RefCode = Invited.RefCode invited,
                          Referral.Profit = Withdrawal.Profit withdrawal,
                          Referral.DealID = Withdrawal.DealID withdrawal,
                          Bonus = bonus,
                          Date = now (service sc)\<rparr>
          in (case CreateReferral E L sc referral of
                (Some err, sc1) \<Rightarrow> (Some (Wrapped ''processWithdrawal: referral'' err), sc1)
              | (None, sc1) \<Rightarrow>
                  (case UpdateReferrer E sc1 (ref\<lparr>PendingPayout := fadd (PendingPayout ref) bonus\<rparr>) of
                     (Some err, sc2) \<Rightarrow> (Some (Wrapped ''processWithdrawal: referrer'' err), sc2)
                   | (None, sc2) \<Rightarrow> (None, sc2)))))"

text \<open>The loop of \<open>syncWithdrawals\<close>: an error of one withdrawal is logged and the loop
  goes on.\<close>

fun processAll ::
  "service \<Rightarrow> golib \<Rightarrow> (calls \<Rightarrow> string) \<Rightarrow> SheetsClient \<Rightarrow> Withdrawal list \<Rightarrow> SheetsClient" where
  "processAll E L now sc [] = sc"
| "processAll E L now sc (withdrawal # withdrawals) =
     processAll E L now (snd (processWithdrawal E L now sc withdrawal)) withdrawals"

definition syncWithdrawals ::
  "service \<Rightarrow> golib \<Rightarrow> (calls \<Rightarrow> string) \<Rightarrow> SheetsClient \<Rightarrow> SheetsClient" where
  "syncWithdrawals E L now sc =
     (case GetNewWithdrawals E L sc of
        (Inl err, sc1) \<Rightarrow> sc1
      | (Inr withdrawals, sc1) \<Rightarrow>
          if length withdrawals = 0 then sc1 else processAll E L now sc1 withdrawals)"

text \<open>A reply that carries rows; every other reply to a read is an error.\<close>

definition isValues :: "response \<Rightarrow> bool" where
  "isValues r = (case r of Values rows \<Rightarrow> True | _ \<Rightarrow> False)"

section \<open>Concrete inputs\<close>

text \<open>A library whose float parser rejects every string, an empty client, and small
  sheets, used to run the definitions.\<close>

definition L0 :: golib where
  "L0 = \<lparr>ParseFloat = (\<lambda>s. None), FormatFloat = (\<lambda>n f. ''7''), ConvertOverflow = (\<lambda>f. 0)\<rparr>"

definition sc0 :: SheetsClient where
  "sc0 = \<lparr>referrersByID = Map.empty, referrersByCode = Map.empty, invitedByUserID = Map.empty,
     existingDealIDs = (\<lambda>d. False), service = []\<rparr>"

definition rows8 :: "cell list list" where
  "rows8 = [[CString ''7'', CNil, CNil, CNil, CNil, CFloat64 (Finite 50), CFloat64 (Finite 20)],
            [CString ''8'', CNil, CNil, CNil, CNil, CFloat64 (Finite 5), CFloat64 (Finite 0)]]"

definition E8 :: service where
  "E8 h rq = (case rq of Get sh rng opt \<Rightarrow> Values rows8 | _ \<Rightarrow> Updated)"

definition row10 :: "cell list" where
  "row10 = [CString ''7'', CNil, CNil, CNil, CNil, CFloat64 (Finite 1),
            CFloat64 (Finite (1 / 1152921504606846976))]"

definition row10b :: "cell list" where
  "row10b = [CString ''7'', CNil, CNil, CNil, CNil, CFloat64 (Finite 30), CFloat64 (Finite 20)]"

definition r5 :: Referrer where
  "r5 = \<lparr>ID = 5, Username = ''@old'', Code = ''OLD123'', Wallet = [], RefCount = 0,
          PendingPayout = Finite 0, PaidOut = Finite 0\<rparr>"

definition scOld :: SheetsClient where
  "scOld = \<lparr>referrersByID = [5 \<mapsto> r5], referrersByCode = [''OLD123'' \<mapsto> r5],
     invitedByUserID = [9 \<mapsto> \<lparr>Invited.UserID = 9, Invited.RefCode = ''OLD123''\<rparr>],
     existingDealIDs = (\<lambda>d. d = ''D0''), service = []\<rparr>"

definition rowsR :: "cell list list" where
  "rowsR = [[CString ''7'', CString ''@ann'', CString ''abc123'']]"

definition rowsI :: "cell list list" where
  "rowsI = [[CString ''8'', CString ''ABC123'']]"

definition E2a :: service where
  "E2a h rq = Failed"

definition E2b :: service where
  "E2b h rq = (case rq of Get sh rng opt \<Rightarrow> if sh = Refovody then Values rowsR else Failed
               | _ \<Rightarrow> Failed)"

definition E2c :: service where
  "E2c h rq = (case rq of
       Get sh rng opt \<Rightarrow> if sh = Refovody then Values rowsR
                         else if sh = Priglashennye then Values rowsI else Failed
     | _ \<Rightarrow> Failed)"

section \<open>Properties\<close>

subsection \<open>Calls of the service\<close>

lemma Do_eq:
  "Do E sc rq = (E (service sc) rq, sc\<lparr>service := service sc @ [(rq, E (service sc) rq)]\<rparr>)"
  by (simp add: Do_def Let_def)

lemma ValuesGet_eq:
  "ValuesGet E sc sh rng opt =
     (case E (service sc) (Get sh rng opt) of Values rows \<Rightarrow> Inr rows | _ \<Rightarrow> Inl (),
      sc\<lparr>service := service sc @ [(Get sh rng opt, E (service sc) (Get sh rng opt))]\<rparr>)"
  by (simp add: ValuesGet_def Do_eq split: response.splits)

lemma ValuesUpdate_eq:
  "ValuesUpdate E sc sh rng vals =
     (E (service sc) (Update sh rng vals) = Updated,
      sc\<lparr>service := service sc @ [(Update sh rng vals, E (service sc) (Update sh rng vals))]\<rparr>)"
  by (simp add: ValuesUpdate_def Do_eq split: response.splits)

lemma ValuesBatchUpdate_eq:
  "ValuesBatchUpdate E sc data =
     (E (service sc) (BatchUpdate data) = Updated,
      sc\<lparr>service := service sc @ [(BatchUpdate data, E (service sc) (BatchUpdate data))]\<rparr>)"
  by (simp add: ValuesBatchUpdate_def Do_eq split: response.splits)

lemma ValuesGet_Values:
  "E (service sc) (Get sh rng opt) = Values rows \<Longrightarrow>
   ValuesGet E sc sh rng opt = (Inr rows, sc\<lparr>service := service sc @ [(Get sh rng opt, Values rows)]\<rparr>)"
  by (simp add: ValuesGet_eq)

subsection \<open>UpdatePendingPayouts\<close>

lemma upt_filter_shift:
  "filter P [0..<Suc n] = (if P 0 then [0] else []) @ map Suc (filter (P \<circ> Suc) [0..<n])"
proof -
  have "[0..<Suc n] = 0 # map Suc [0..<n]"
    by (simp add: upt_conv_Cons map_Suc_upt del: upt_Suc)
  then show ?thesis by (simp add: filter_map del: upt_Suc)
qed

lemma pendingUpdates_Cons:
  "pendingUpdates L k (row # rows) =
     (if (hasID L row \<and> f_ne (fsub (pendingOf L row) (paidOutOf L row)) (pendingOf L row))
      then [(Refovody, ''F'' @ FormatInt (int k + 2), [[CFloat64 (fsub (pendingOf L row) (paidOutOf L row))]])] else [])
     @ pendingUpdates L (Suc k) rows"
  by (simp add: hasID_def pendingOf_def paidOutOf_def Let_def)

lemma pendingUpdates_char:
  "pendingUpdates L k rows =
     map (\<lambda>i. (Refovody, ''F'' @ FormatInt (int (k + i) + 2), [[CFloat64 (fsub (pendingOf L (rows ! i)) (paidOutOf L (rows ! i)))]]))
       (filter (\<lambda>i. hasID L (rows ! i) \<and> f_ne (fsub (pendingOf L (rows ! i)) (paidOutOf L (rows ! i))) (pendingOf L (rows ! i))) [0..<length rows])"
proof (induction rows arbitrary: k)
  case Nil
  show ?case by simp
next
  case (Cons row rows)
  have "pendingUpdates L k (row # rows) =
     (if (hasID L row \<and> f_ne (fsub (pendingOf L row) (paidOutOf L row)) (pendingOf L row))
      then [(Refovody, ''F'' @ FormatInt (int k + 2), [[CFloat64 (fsub (pendingOf L row) (paidOutOf L row))]])] else [])
     @ pendingUpdates L (Suc k) rows"
    by (rule pendingUpdates_Cons)
  also have "pendingUpdates L (Suc k) rows = map (\<lambda>i. (Refovody, ''F'' @ FormatInt (int (Suc k + i) + 2), [[CFloat64 (fsub (pendingOf L (rows ! i)) (paidOutOf L (rows ! i)))]]))
       (filter (\<lambda>i. hasID L (rows ! i) \<and> f_ne (fsub (pendingOf L (rows ! i)) (paidOutOf L (rows ! i))) (pendingOf L (rows ! i))) [0..<length rows])"
    by (rule Cons.IH)
  finally show ?case
    unfolding length_Cons upt_filter_shift
    by (simp add: comp_def del: upt_Suc)
qed


text \<open>
  Claim C8. When the read of Refovody!A2:G succeeds, UpdatePendingPayouts makes, after that
  read, at most one further call: one batch update holding, in row order, exactly the rows
  that have an id in column A and whose new value \<open>pending - paidOut\<close> (columns F and G)
  differs from the current pending value, each written to cell F of its sheet row with
  that new value; when no row differs, no write call is made. For pending 50.0 and
  paid out 20.0 the value written is 30.0.
\<close>

theorem UpdatePendingPayouts_batch:
  assumes "E (service sc) (Get Refovody ''A2:G'' UNFORMATTED_VALUE) = Values rows"
  shows "service (snd (UpdatePendingPayouts E L sc)) =
     service sc @ (Get Refovody ''A2:G'' UNFORMATTED_VALUE, Values rows) #
       (let changed = filter (\<lambda>i. hasID L (rows ! i) \<and>
                  f_ne (fsub (pendingOf L (rows ! i)) (paidOutOf L (rows ! i))) (pendingOf L (rows ! i)))
                 [0..<length rows];
            data = map (\<lambda>i. (Refovody, ''F'' @ FormatInt (int i + 2),
                  [[CFloat64 (fsub (pendingOf L (rows ! i)) (paidOutOf L (rows ! i)))]])) changed
        in if changed = [] then []
           else [(BatchUpdate data,
                  E (service sc @ [(Get Refovody ''A2:G'' UNFORMATTED_VALUE, Values rows)])
                    (BatchUpdate data))]) \<and>
     fsub (Finite 50) (Finite 20) = Finite 30"
proof -
  let ?g = "(Get Refovody ''A2:G'' UNFORMATTED_VALUE, Values rows)"
  let ?sc1 = "sc\<lparr>service := service sc @ [?g]\<rparr>"
  have get: "ValuesGet E sc Refovody ''A2:G'' UNFORMATTED_VALUE = (Inr rows, ?sc1)"
    using assms by (rule ValuesGet_Values)
  have upd: "pendingUpdates L 0 rows =
     map (\<lambda>i. (Refovody, ''F'' @ FormatInt (int i + 2),
                  [[CFloat64 (fsub (pendingOf L (rows ! i)) (paidOutOf L (rows ! i)))]]))
       (filter (\<lambda>i. hasID L (rows ! i) \<and>
                  f_ne (fsub (pendingOf L (rows ! i)) (paidOutOf L (rows ! i))) (pendingOf L (rows ! i)))
                 [0..<length rows])"
    by (simp add: pendingUpdates_char)
  have main: "service (snd (UpdatePendingPayouts E L sc)) =
     service sc @ ?g #
       (let changed = filter (\<lambda>i. hasID L (rows ! i) \<and>
                  f_ne (fsub (pendingOf L (rows ! i)) (paidOutOf L (rows ! i))) (pendingOf L (rows ! i)))
                 [0..<length rows];
            data = map (\<lambda>i. (Refovody, ''F'' @ FormatInt (int i + 2),
                  [[CFloat64 (fsub (pendingOf L (rows ! i)) (paidOutOf L (rows ! i)))]])) changed
        in if changed = [] then []
           else [(BatchUpdate data, E (service sc @ [?g]) (BatchUpdate data))])"
  proof (cases "pendingUpdates L 0 rows = []")
    case True
    then show ?thesis
      unfolding UpdatePendingPayouts_def get using upd by (simp add: Let_def)
  next
    case False
    then have "rows \<noteq> []" by auto
    with False show ?thesis
      unfolding UpdatePendingPayouts_def get using upd
      by (simp add: Let_def ValuesBatchUpdate_eq split: bool.splits)
  qed
  have "fsub (Finite 50) (Finite 20) = Finite 30" by code_simp
  with main show ?thesis by simp
qed

theorem UpdatePendingPayouts_batch_witness:
  "E8 (service sc0) (Get Refovody ''A2:G'' UNFORMATTED_VALUE) = Values rows8 \<and>
   service (snd (UpdatePendingPayouts E8 L0 sc0)) =
    [(Get Refovody ''A2:G'' UNFORMATTED_VALUE, Values rows8),
     (BatchUpdate [(Refovody, ''F2'', [[CFloat64 (Finite 30)]])], Updated)]"
proof -
  have h: "E8 (service sc0) (Get Refovody ''A2:G'' UNFORMATTED_VALUE) = Values rows8"
    by (simp add: E8_def)
  have f: "filter (\<lambda>i. hasID L0 (rows8 ! i) \<and>
                  f_ne (fsub (pendingOf L0 (rows8 ! i)) (paidOutOf L0 (rows8 ! i))) (pendingOf L0 (rows8 ! i)))
                 [0..<length rows8] = [0]"
    by code_simp
  have v: "fsub (pendingOf L0 (rows8 ! 0)) (paidOutOf L0 (rows8 ! 0)) = Finite 30"
    by code_simp
  have n: "FormatInt 2 = ''2''"
    by code_simp
  have s: "service sc0 = []"
    by (simp add: sc0_def)
  from UpdatePendingPayouts_batch [where E = E8 and sc = sc0 and rows = rows8 and L = L0] show ?thesis
    using h by (simp add: f v n s E8_def)
qed

subsection \<open>Repeated runs of the repair\<close>

lemma fsub_Finite: "fsub (Finite a) (Finite b) = round64 (a - b)"
  by (simp add: fsub_def fneg_def)

lemma fsub_exact: "is_float64 (a - b) \<Longrightarrow> fsub (Finite a) (Finite b) = Finite (a - b)"
  by (simp add: fsub_Finite is_float64_def)

lemma f_ne_Finite: "f_ne (Finite a) (Finite b) = (a \<noteq> b)"
  by (simp add: f_ne_def)

declare pendingUpdates.simps(2) [simp del]

lemma pendingUpdates_single:
  "pendingUpdates L i [row] =
     (if hasID L row \<and> f_ne (fsub (pendingOf L row) (paidOutOf L row)) (pendingOf L row)
      then [(Refovody, ''F'' @ FormatInt (int i + 2),
             [[CFloat64 (fsub (pendingOf L row) (paidOutOf L row))]])]
      else [])"
  by (simp add: pendingUpdates_Cons)

text \<open>
  Claim C10, as amended. For a row with an id whose pending value \<open>p\<close> is a float64:
  the row is not written when paidOut \<open>q\<close> is 0; when the difference \<open>p - q\<close> is
  exact (itself a float64) the row is left alone precisely when \<open>q = 0\<close>; and when
  \<open>p - q\<close> and \<open>p - 2 * q\<close> are both exact and \<open>q \<noteq> 0\<close>, the first run writes
  \<open>p - q\<close> and a second run over the row holding that value, with the same paidOut,
  writes \<open>p - 2 * q\<close>: it subtracts the same amount again. (The counterexample below
  is a non-zero paidOut that float64 subtraction absorbs.)
\<close>

theorem repair_twice:
  assumes "hasID L row" "pendingOf L row = Finite p" "paidOutOf L row = Finite q"
    and "is_float64 p"
    and "hasID L row'" "pendingOf L row' = fsub (Finite p) (Finite q)"
      "paidOutOf L row' = Finite q"
  shows "(q = 0 \<longrightarrow> pendingUpdates L i [row] = []) \<and>
    (is_float64 (p - q) \<longrightarrow> (pendingUpdates L i [row] = [] \<longleftrightarrow> q = 0)) \<and>
    (is_float64 (p - q) \<and> is_float64 (p - 2 * q) \<and> q \<noteq> 0 \<longrightarrow>
       pendingUpdates L i [row] =
         [(Refovody, ''F'' @ FormatInt (int i + 2), [[CFloat64 (Finite (p - q))]])] \<and>
       pendingUpdates L i [row'] =
         [(Refovody, ''F'' @ FormatInt (int i + 2), [[CFloat64 (Finite (p - 2 * q))]])])"
proof (intro conjI impI)
  assume "q = 0"
  with assms(1-4) show "pendingUpdates L i [row] = []"
    by (simp add: pendingUpdates_single fsub_exact f_ne_Finite)
next
  assume "is_float64 (p - q)"
  with assms(1-3) show "pendingUpdates L i [row] = [] \<longleftrightarrow> q = 0"
    by (simp add: pendingUpdates_single fsub_exact f_ne_Finite)
next
  assume a: "is_float64 (p - q) \<and> is_float64 (p - 2 * q) \<and> q \<noteq> 0"
  with assms(1-3) show "pendingUpdates L i [row] =
         [(Refovody, ''F'' @ FormatInt (int i + 2), [[CFloat64 (Finite (p - q))]])]"
    by (simp add: pendingUpdates_single fsub_exact f_ne_Finite)
  have "p - q - q = p - 2 * q" by simp
  with a have "is_float64 (p - q - q)" by simp
  with a assms(5-7) show "pendingUpdates L i [row'] =
         [(Refovody, ''F'' @ FormatInt (int i + 2), [[CFloat64 (Finite (p - 2 * q))]])]"
    by (simp add: pendingUpdates_single fsub_exact f_ne_Finite)
qed

lemma hasID_7: "hasID L0 (CString ''7'' # cs)"
  by code_simp

theorem repair_twice_counterexample:
  "hasID L0 row10 \<and> pendingOf L0 row10 = Finite 1 \<and>
   paidOutOf L0 row10 = Finite (1 / 1152921504606846976) \<and>
   is_float64 1 \<and> is_float64 (1 / 1152921504606846976) \<and>
   (1 :: rat) / 1152921504606846976 \<noteq> 0 \<and>
   pendingUpdates L0 0 [row10] = [] \<and>
   fsub (fsub (Finite 1) (Finite (1 / 1152921504606846976))) (Finite (1 / 1152921504606846976))
     = Finite 1"
  by code_simp

theorem repair_twice_witness:
  "hasID L0 (rows8 ! 0) \<and> pendingOf L0 (rows8 ! 0) = Finite 50 \<and> paidOutOf L0 (rows8 ! 0) = Finite 20 \<and>
   is_float64 50 \<and> hasID L0 row10b \<and> pendingOf L0 row10b = fsub (Finite 50) (Finite 20) \<and>
   paidOutOf L0 row10b = Finite 20 \<and> is_float64 (50 - 20) \<and> is_float64 (50 - 2 * 20) \<and>
   pendingUpdates L0 0 [rows8 ! 0] = [(Refovody, ''F2'', [[CFloat64 (Finite 30)]])] \<and>
   pendingUpdates L0 0 [row10b] = [(Refovody, ''F2'', [[CFloat64 (Finite 10)]])]"
proof -
  have h: "hasID L0 (rows8 ! 0)" "pendingOf L0 (rows8 ! 0) = Finite 50"
    "paidOutOf L0 (rows8 ! 0) = Finite 20" "is_float64 50" "hasID L0 row10b"
    "pendingOf L0 row10b = fsub (Finite 50) (Finite 20)" "paidOutOf L0 row10b = Finite 20"
    "is_float64 (50 - 20)" "is_float64 (50 - 2 * 20)"
    by code_simp+
  have n: "FormatInt 2 = ''2''" by code_simp
  from repair_twice [OF h(1-7), of 0] h n show ?thesis by simp
qed

subsection \<open>LoadCache\<close>

lemma cacheReferrer_frame [simp]:
  "invitedByUserID (cacheReferrer ref sc) = invitedByUserID sc"
  "existingDealIDs (cacheReferrer ref sc) = existingDealIDs sc"
  "service (cacheReferrer ref sc) = service sc"
  by (simp_all add: cacheReferrer_def Let_def)

lemma cacheReferrer_maps:
  "referrersByID (cacheReferrer ref sc) = (referrersByID sc)(ID ref \<mapsto> ref)"
  "referrersByCode (cacheReferrer ref sc) =
     (if Code ref \<noteq> [] then (referrersByCode sc)(ToUpper (TrimSpace (Code ref)) \<mapsto> ref)
      else referrersByCode sc)"
  by (simp_all add: cacheReferrer_def Let_def)

lemma loadReferrerRows_frame [simp]:
  "invitedByUserID (loadReferrerRows L rows sc) = invitedByUserID sc"
  "existingDealIDs (loadReferrerRows L rows sc) = existingDealIDs sc"
  "service (loadReferrerRows L rows sc) = service sc"
  by (induction rows arbitrary: sc; simp split: option.splits)+

lemma loadReferrerRows_indep:
  "referrersByID sc = referrersByID sc' \<Longrightarrow> referrersByCode sc = referrersByCode sc' \<Longrightarrow>
   referrersByID (loadReferrerRows L rows sc) = referrersByID (loadReferrerRows L rows sc') \<and>
   referrersByCode (loadReferrerRows L rows sc) = referrersByCode (loadReferrerRows L rows sc')"
proof (induction rows arbitrary: sc sc')
  case Nil
  then show ?case by simp
next
  case (Cons row rows)
  have step: "\<And>ref. referrersByID (cacheReferrer ref sc) = referrersByID (cacheReferrer ref sc') \<and>
    referrersByCode (cacheReferrer ref sc) = referrersByCode (cacheReferrer ref sc')"
    using Cons.prems by (simp add: cacheReferrer_maps)
  show ?case
  proof (cases "length row < 1 \<or> parseReferrerRow L row = None")
    case True
    then show ?thesis using Cons.IH [OF Cons.prems] by auto
  next
    case False
    then obtain ref where "parseReferrerRow L row = Some ref" by auto
    with False show ?thesis using Cons.IH [of "cacheReferrer ref sc" "cacheReferrer ref sc'"] step
      by simp
  qed
qed

lemma loadInvitedRows_frame [simp]:
  "referrersByID (loadInvitedRows L rows sc) = referrersByID sc"
  "referrersByCode (loadInvitedRows L rows sc) = referrersByCode sc"
  "existingDealIDs (loadInvitedRows L rows sc) = existingDealIDs sc"
  "service (loadInvitedRows L rows sc) = service sc"
  by (induction rows arbitrary: sc; simp split: option.splits)+

lemma loadInvitedRows_indep:
  "invitedByUserID sc = invitedByUserID sc' \<Longrightarrow>
   invitedByUserID (loadInvitedRows L rows sc) = invitedByUserID (loadInvitedRows L rows sc')"
proof (induction rows arbitrary: sc sc')
  case Nil
  then show ?case by simp
next
  case (Cons row rows)
  show ?case
  proof (cases "length row < 2 \<or> invitedUserID L (row ! 0) = None")
    case True
    then show ?thesis using Cons.IH [OF Cons.prems] by auto
  next
    case False
    then obtain u where u: "invitedUserID L (row ! 0) = Some u" by auto
    let ?i = "\<lparr>Invited.UserID = u, Invited.RefCode = getStringValue L (row ! 1)\<rparr>"
    have "invitedByUserID (loadInvitedRows L rows (sc\<lparr>invitedByUserID := (invitedByUserID sc)(u \<mapsto> ?i)\<rparr>))
      = invitedByUserID (loadInvitedRows L rows (sc'\<lparr>invitedByUserID := (invitedByUserID sc')(u \<mapsto> ?i)\<rparr>))"
      by (rule Cons.IH) (simp add: Cons.prems)
    with False u show ?thesis by simp
  qed
qed

lemma loadDealIDRows_frame [simp]:
  "referrersByID (loadDealIDRows L rows sc) = referrersByID sc"
  "referrersByCode (loadDealIDRows L rows sc) = referrersByCode sc"
  "invitedByUserID (loadDealIDRows L rows sc) = invitedByUserID sc"
  "service (loadDealIDRows L rows sc) = service sc"
  by (induction rows arbitrary: sc; simp add: Let_def)+

lemma not_isValues: "\<not> isValues r \<Longrightarrow> (case r of Values rows \<Rightarrow> f rows | _ \<Rightarrow> g) = g"
  by (cases r) (simp_all add: isValues_def)

lemma loadReferrersCache_eq:
  "loadReferrersCache E L sc =
    (let g = Get Refovody ''A2:G'' UNFORMATTED_VALUE; r = E (service sc) g;
         sc1 = sc\<lparr>service := service sc @ [(g, r)]\<rparr>
     in case r of
          Values rows \<Rightarrow> (None, loadReferrerRows L rows
                    (sc1\<lparr>referrersByID := Map.empty, referrersByCode := Map.empty\<rparr>))
        | _ \<Rightarrow> (Some (ReadError Refovody), sc1))"
  by (simp add: loadReferrersCache_def ValuesGet_eq Let_def split: response.splits)

lemma loadInvitedCache_eq:
  "loadInvitedCache E L sc =
    (let g = Get Priglashennye ''A2:B'' FORMATTED_VALUE; r = E (service sc) g;
         sc1 = sc\<lparr>service := service sc @ [(g, r)]\<rparr>
     in case r of
          Values rows \<Rightarrow> (None, loadInvitedRows L rows (sc1\<lparr>invitedByUserID := Map.empty\<rparr>))
        | _ \<Rightarrow> (Some (ReadError Priglashennye), sc1))"
  by (simp add: loadInvitedCache_def ValuesGet_eq Let_def split: response.splits)

lemma loadDealIDsCache_eq:
  "loadDealIDsCache E L sc =
    (let g = Get Referaly ''D2:D'' FORMATTED_VALUE; r = E (service sc) g;
         sc1 = sc\<lparr>service := service sc @ [(g, r)]\<rparr>
     in case r of
          Values rows \<Rightarrow> (None, loadDealIDRows L rows (sc1\<lparr>existingDealIDs := (\<lambda>d. False)\<rparr>))
        | _ \<Rightarrow> (Some (ReadError Referaly), sc1))"
  by (simp add: loadDealIDsCache_def ValuesGet_eq Let_def split: response.splits)


lemma LoadCache_fail1:
  assumes "\<not> isValues (E (service sc) (Get Refovody ''A2:G'' UNFORMATTED_VALUE))"
  shows "fst (LoadCache E L sc) = Some (Wrapped ''LoadCache: referrers'' (ReadError Refovody)) \<and>
     referrersByID (snd (LoadCache E L sc)) = referrersByID sc \<and>
     referrersByCode (snd (LoadCache E L sc)) = referrersByCode sc \<and>
     invitedByUserID (snd (LoadCache E L sc)) = invitedByUserID sc \<and>
     existingDealIDs (snd (LoadCache E L sc)) = existingDealIDs sc"
  using assms by (simp add: LoadCache_def loadReferrersCache_eq Let_def not_isValues)

lemma LoadCache_fail2:
  assumes "E (service sc) (Get Refovody ''A2:G'' UNFORMATTED_VALUE) = Values rrows"
    and "\<not> isValues (E (service sc @ [(Get Refovody ''A2:G'' UNFORMATTED_VALUE, Values rrows)])
                       (Get Priglashennye ''A2:B'' FORMATTED_VALUE))"
  shows "fst (LoadCache E L sc) = Some (Wrapped ''LoadCache: invited'' (ReadError Priglashennye)) \<and>
     referrersByID (snd (LoadCache E L sc)) =
       referrersByID (loadReferrerRows L rrows
          (sc\<lparr>referrersByID := Map.empty, referrersByCode := Map.empty\<rparr>)) \<and>
     referrersByCode (snd (LoadCache E L sc)) =
       referrersByCode (loadReferrerRows L rrows
          (sc\<lparr>referrersByID := Map.empty, referrersByCode := Map.empty\<rparr>)) \<and>
     invitedByUserID (snd (LoadCache E L sc)) = invitedByUserID sc \<and>
     existingDealIDs (snd (LoadCache E L sc)) = existingDealIDs sc"
proof -
  let ?g1 = "Get Refovody ''A2:G'' UNFORMATTED_VALUE"
  let ?sc1 = "loadReferrerRows L rrows
     (sc\<lparr>service := service sc @ [(?g1, Values rrows)],
         referrersByID := Map.empty, referrersByCode := Map.empty\<rparr>)"
  have 1: "loadReferrersCache E L sc = (None, ?sc1)"
    using assms(1) by (simp add: loadReferrersCache_eq Let_def)
  have s1: "service ?sc1 = service sc @ [(?g1, Values rrows)]" by simp
  have 2: "loadInvitedCache E L ?sc1 = (Some (ReadError Priglashennye),
      ?sc1\<lparr>service := service ?sc1 @ [(Get Priglashennye ''A2:B'' FORMATTED_VALUE,
         E (service ?sc1) (Get Priglashennye ''A2:B'' FORMATTED_VALUE))]\<rparr>)"
    using assms(2) unfolding loadInvitedCache_eq s1 by (simp add: Let_def not_isValues)
  have m: "referrersByID ?sc1 = referrersByID (loadReferrerRows L rrows
          (sc\<lparr>referrersByID := Map.empty, referrersByCode := Map.empty\<rparr>)) \<and>
     referrersByCode ?sc1 = referrersByCode (loadReferrerRows L rrows
          (sc\<lparr>referrersByID := Map.empty, referrersByCode := Map.empty\<rparr>))"
    by (rule loadReferrerRows_indep) simp_all
  show ?thesis
    unfolding LoadCache_def 1 using m by (simp add: 2)
qed


lemma LoadCache_fail3:
  assumes "E (service sc) (Get Refovody ''A2:G'' UNFORMATTED_VALUE) = Values rrows"
    and "E (service sc @ [(Get Refovody ''A2:G'' UNFORMATTED_VALUE, Values rrows)])
           (Get Priglashennye ''A2:B'' FORMATTED_VALUE) = Values irows"
    and "\<not> isValues (E (service sc @ [(Get Refovody ''A2:G'' UNFORMATTED_VALUE, Values rrows),
                                      (Get Priglashennye ''A2:B'' FORMATTED_VALUE, Values irows)])
                       (Get Referaly ''D2:D'' FORMATTED_VALUE))"
  shows "fst (LoadCache E L sc) = Some (Wrapped ''LoadCache: deal ids'' (ReadError Referaly)) \<and>
     referrersByID (snd (LoadCache E L sc)) =
       referrersByID (loadReferrerRows L rrows
          (sc\<lparr>referrersByID := Map.empty, referrersByCode := Map.empty\<rparr>)) \<and>
     referrersByCode (snd (LoadCache E L sc)) =
       referrersByCode (loadReferrerRows L rrows
          (sc\<lparr>referrersByID := Map.empty, referrersByCode := Map.empty\<rparr>)) \<and>
     invitedByUserID (snd (LoadCache E L sc)) =
       invitedByUserID (loadInvitedRows L irows (sc\<lparr>invitedByUserID := Map.empty\<rparr>)) \<and>
     existingDealIDs (snd (LoadCache E L sc)) = existingDealIDs sc"
proof -
  let ?g1 = "Get Refovody ''A2:G'' UNFORMATTED_VALUE"
  let ?g2 = "Get Priglashennye ''A2:B'' FORMATTED_VALUE"
  let ?g3 = "Get Referaly ''D2:D'' FORMATTED_VALUE"
  define sc1 where "sc1 = loadReferrerRows L rrows
     (sc\<lparr>service := service sc @ [(?g1, Values rrows)],
         referrersByID := Map.empty, referrersByCode := Map.empty\<rparr>)"
  define sc2 where "sc2 = loadInvitedRows L irows
     (sc1\<lparr>service := service sc1 @ [(?g2, Values irows)], invitedByUserID := Map.empty\<rparr>)"
  have 1: "loadReferrersCache E L sc = (None, sc1)"
    using assms(1) by (simp add: loadReferrersCache_eq Let_def sc1_def)
  have s1: "service sc1 = service sc @ [(?g1, Values rrows)]"
    by (simp add: sc1_def)
  have 2: "loadInvitedCache E L sc1 = (None, sc2)"
    using assms(2) unfolding loadInvitedCache_eq s1 by (simp add: Let_def sc2_def s1)
  have s2: "service sc2 = service sc @ [(?g1, Values rrows), (?g2, Values irows)]"
    by (simp add: sc2_def s1)
  have 3: "loadDealIDsCache E L sc2 = (Some (ReadError Referaly),
      sc2\<lparr>service := service sc2 @ [(?g3, E (service sc2) ?g3)]\<rparr>)"
    using assms(3) unfolding loadDealIDsCache_eq s2 by (simp add: Let_def not_isValues)
  have m: "referrersByID sc1 = referrersByID (loadReferrerRows L rrows
          (sc\<lparr>referrersByID := Map.empty, referrersByCode := Map.empty\<rparr>)) \<and>
     referrersByCode sc1 = referrersByCode (loadReferrerRows L rrows
          (sc\<lparr>referrersByID := Map.empty, referrersByCode := Map.empty\<rparr>))"
    unfolding sc1_def by (rule loadReferrerRows_indep) simp_all
  have i: "invitedByUserID sc2 =
       invitedByUserID (loadInvitedRows L irows (sc\<lparr>invitedByUserID := Map.empty\<rparr>))"
    unfolding sc2_def by (rule loadInvitedRows_indep) simp
  have f: "referrersByID sc2 = referrersByID sc1" "referrersByCode sc2 = referrersByCode sc1"
    "existingDealIDs sc2 = existingDealIDs sc1" "existingDealIDs sc1 = existingDealIDs sc"
    by (simp_all add: sc2_def sc1_def)
  show ?thesis
    unfolding LoadCache_def 1 using m i f by (simp add: 2 3)
qed

text \<open>
  Claim C2, as amended. When a sub-load fails, LoadCache returns that error, and the maps
  of the failing sub-load and of the sub-loads after it are as before; the maps of the
  sub-loads that had already succeeded hold the newly read rows. So a failed referrer read
  leaves the whole cache as it was; a failed invited read leaves the invited bindings and
  the deal ids as they were, with the referrer maps rebuilt from the rows just read; a
  failed deal-id read leaves only the deal ids as they were.
\<close>

theorem LoadCache_partial_failure:
  "(\<not> isValues (E (service sc) (Get Refovody ''A2:G'' UNFORMATTED_VALUE)) \<longrightarrow>
      fst (LoadCache E L sc) = Some (Wrapped ''LoadCache: referrers'' (ReadError Refovody)) \<and>
      referrersByID (snd (LoadCache E L sc)) = referrersByID sc \<and>
      referrersByCode (snd (LoadCache E L sc)) = referrersByCode sc \<and>
      invitedByUserID (snd (LoadCache E L sc)) = invitedByUserID sc \<and>
      existingDealIDs (snd (LoadCache E L sc)) = existingDealIDs sc) \<and>
   (E (service sc) (Get Refovody ''A2:G'' UNFORMATTED_VALUE) = Values rrows \<and>
    \<not> isValues (E (service sc @ [(Get Refovody ''A2:G'' UNFORMATTED_VALUE, Values rrows)])
                   (Get Priglashennye ''A2:B'' FORMATTED_VALUE)) \<longrightarrow>
      fst (LoadCache E L sc) = Some (Wrapped ''LoadCache: invited'' (ReadError Priglashennye)) \<and>
      referrersByID (snd (LoadCache E L sc)) =
        referrersByID (loadReferrerRows L rrows
           (sc\<lparr>referrersByID := Map.empty, referrersByCode := Map.empty\<rparr>)) \<and>
      referrersByCode (snd (LoadCache E L sc)) =
        referrersByCode (loadReferrerRows L rrows
           (sc\<lparr>referrersByID := Map.empty, referrersByCode := Map.empty\<rparr>)) \<and>
      invitedByUserID (snd (LoadCache E L sc)) = invitedByUserID sc \<and>
      existingDealIDs (snd (LoadCache E L sc)) = existingDealIDs sc) \<and>
   (E (service sc) (Get Refovody ''A2:G'' UNFORMATTED_VALUE) = Values rrows \<and>
    E (service sc @ [(Get Refovody ''A2:G'' UNFORMATTED_VALUE, Values rrows)])
      (Get Priglashennye ''A2:B'' FORMATTED_VALUE) = Values irows \<and>
    \<not> isValues (E (service sc @ [(Get Refovody ''A2:G'' UNFORMATTED_VALUE, Values rrows),
                                 (Get Priglashennye ''A2:B'' FORMATTED_VALUE, Values irows)])
                   (Get Referaly ''D2:D'' FORMATTED_VALUE)) \<longrightarrow>
      fst (LoadCache E L sc) = Some (Wrapped ''LoadCache: deal ids'' (ReadError Referaly)) \<and>
      referrersByID (snd (LoadCache E L sc)) =
        referrersByID (loadReferrerRows L rrows
           (sc\<lparr>referrersByID := Map.empty, referrersByCode := Map.empty\<rparr>)) \<and>
      referrersByCode (snd (LoadCache E L sc)) =
        referrersByCode (loadReferrerRows L rrows
           (sc\<lparr>referrersByID := Map.empty, referrersByCode := Map.empty\<rparr>)) \<and>
      invitedByUserID (snd (LoadCache E L sc)) =
        invitedByUserID (loadInvitedRows L irows (sc\<lparr>invitedByUserID := Map.empty\<rparr>)) \<and>
      existingDealIDs (snd (LoadCache E L sc)) = existingDealIDs sc)"
  using LoadCache_fail1 [of E sc L] LoadCache_fail2 [of E sc rrows L]
    LoadCache_fail3 [of E sc rrows irows L]
  by blast

theorem LoadCache_partial_failure_counterexample:
  "fst (LoadCache E2b L0 scOld) = Some (Wrapped ''LoadCache: invited'' (ReadError Priglashennye)) \<and>
   referrersByID scOld 5 = Some r5 \<and>
   referrersByID (snd (LoadCache E2b L0 scOld)) 5 = None \<and>
   referrersByCode (snd (LoadCache E2b L0 scOld)) ''OLD123'' = None \<and>
   referrersByID (snd (LoadCache E2b L0 scOld)) 7 =
     Some \<lparr>ID = 7, Username = ''@ann'', Code = ''abc123'', Wallet = [], RefCount = 0,
           PendingPayout = Finite 0, PaidOut = Finite 0\<rparr>"
  by code_simp

theorem LoadCache_partial_failure_witness:
  "fst (LoadCache E2a L0 scOld) = Some (Wrapped ''LoadCache: referrers'' (ReadError Refovody)) \<and>
   referrersByID (snd (LoadCache E2a L0 scOld)) = referrersByID scOld \<and>
   fst (LoadCache E2b L0 scOld) = Some (Wrapped ''LoadCache: invited'' (ReadError Priglashennye)) \<and>
   invitedByUserID (snd (LoadCache E2b L0 scOld)) = invitedByUserID scOld \<and>
   referrersByID (snd (LoadCache E2b L0 scOld)) =
     referrersByID (loadReferrerRows L0 rowsR
        (scOld\<lparr>referrersByID := Map.empty, referrersByCode := Map.empty\<rparr>)) \<and>
   fst (LoadCache E2c L0 scOld) = Some (Wrapped ''LoadCache: deal ids'' (ReadError Referaly)) \<and>
   invitedByUserID (snd (LoadCache E2c L0 scOld)) =
     invitedByUserID (loadInvitedRows L0 rowsI (scOld\<lparr>invitedByUserID := Map.empty\<rparr>)) \<and>
   existingDealIDs (snd (LoadCache E2c L0 scOld)) = existingDealIDs scOld"
proof -
  have a: "\<not> isValues (E2a (service scOld) (Get Refovody ''A2:G'' UNFORMATTED_VALUE))"
    by (simp add: E2a_def isValues_def)
  have b: "E2b (service scOld) (Get Refovody ''A2:G'' UNFORMATTED_VALUE) = Values rowsR"
    "\<not> isValues (E2b (service scOld @ [(Get Refovody ''A2:G'' UNFORMATTED_VALUE, Values rowsR)])
                   (Get Priglashennye ''A2:B'' FORMATTED_VALUE))"
    by (simp_all add: E2b_def isValues_def)
  have c: "E2c (service scOld) (Get Refovody ''A2:G'' UNFORMATTED_VALUE) = Values rowsR"
    "E2c (service scOld @ [(Get Refovody ''A2:G'' UNFORMATTED_VALUE, Values rowsR)])
      (Get Priglashennye ''A2:B'' FORMATTED_VALUE) = Values rowsI"
    "\<not> isValues (E2c (service scOld @ [(Get Refovody ''A2:G'' UNFORMATTED_VALUE, Values rowsR),
                                 (Get Priglashennye ''A2:B'' FORMATTED_VALUE, Values rowsI)])
                   (Get Referaly ''D2:D'' FORMATTED_VALUE))"
    by (simp_all add: E2c_def isValues_def)
  show ?thesis
    using LoadCache_partial_failure [where E = E2a and sc = scOld and L = L0]
      LoadCache_partial_failure [where E = E2b and sc = scOld and L = L0 and rrows = rowsR]
      LoadCache_partial_failure [where E = E2c and sc = scOld and L = L0 and rrows = rowsR
        and irows = rowsI] a b c
    by simp
qed

end
